theory Spec2Isabelle
  imports Complex_Main "HOL-Library.Code_Target_Nat"
begin

unbundle bit_operations_syntax

section \<open>Python values\<close>

text \<open>
  A Python \<^verbatim>\<open>str\<close> is a sequence of Unicode code points. The texts of
  \<^verbatim>\<open>backend/main.py\<close> are Chinese, far outside the 8-bit \<^typ>\<open>char\<close>, so a
  \<^verbatim>\<open>str\<close> is a list of code points here. The output of \<^verbatim>\<open>json.dumps\<close> (with
  its default \<^verbatim>\<open>ensure_ascii=True\<close>) is plain ASCII and is kept as a \<^typ>\<open>string\<close>.
\<close>

type_synonym pystr = "nat list"

definition ascii :: "string \<Rightarrow> pystr" where
  "ascii s = map of_char s"

text \<open>
  The values \<^verbatim>\<open>json.dumps\<close> is given: \<^verbatim>\<open>None\<close>, \<^verbatim>\<open>bool\<close>, \<^verbatim>\<open>int\<close>,
  \<^verbatim>\<open>float\<close>, \<^verbatim>\<open>str\<close>, \<^verbatim>\<open>list\<close> and \<^verbatim>\<open>dict\<close>. A \<^verbatim>\<open>dict\<close> keeps
  its insertion order, which is the order of the serialised members, so it is an
  association list. A \<^verbatim>\<open>float\<close> is held by the decimal value of its literal: every
  float literal of the program has at most seven significant digits, and a decimal of at
  most fifteen significant digits is read back unchanged from the double nearest to it.
\<close>

datatype json =
    JNull
  | JBool bool
  | JInt int
  | JFloat rat
  | JStr pystr
  | JList "json list"
  | JDict "(pystr \<times> json) list"

section \<open>The encoder \<^verbatim>\<open>json.dumps\<close>\<close>

text \<open>
  \<^verbatim>\<open>json.dumps(obj)\<close> with its defaults: separators \<^verbatim>\<open>", "\<close> and \<^verbatim>\<open>": "\<close>,
  \<^verbatim>\<open>ensure_ascii=True\<close>. A string is quoted; the backslash, the double quote and the
  control characters with a short form get that short form; every other character outside
  the printable ASCII range \<^verbatim>\<open>' '\<close> .. \<^verbatim>\<open>'~'\<close> becomes a four-digit lower-case
  hexadecimal escape, a character beyond the basic plane a surrogate pair of two.
  \<open>hex4\<close> is only applied below \<^verbatim>\<open>0x10000\<close>, where four digits are all there are.
\<close>

definition hex_digit :: "nat \<Rightarrow> char" where
  "hex_digit d = ''0123456789abcdef'' ! (d mod 16)"

definition hex4 :: "nat \<Rightarrow> string" where
  "hex4 n = [hex_digit (n div 4096), hex_digit (n div 256), hex_digit (n div 16), hex_digit n]"

definition u_escape :: "nat \<Rightarrow> string" where
  "u_escape n = CHR 0x5C # CHR ''u'' # hex4 n"

definition escape_char :: "nat \<Rightarrow> string" where
  "escape_char c =
    (if c = 0x5C then [CHR 0x5C, CHR 0x5C]
     else if c = 0x22 then [CHR 0x5C, CHR 0x22]
     else if c = 0x08 then [CHR 0x5C, CHR ''b'']
     else if c = 0x0C then [CHR 0x5C, CHR ''f'']
     else if c = 0x0A then [CHR 0x5C, CHR ''n'']
     else if c = 0x0D then [CHR 0x5C, CHR ''r'']
     else if c = 0x09 then [CHR 0x5C, CHR ''t'']
     else if 0x20 \<le> c \<and> c \<le> 0x7E then [char_of c]
     else if c < 0x10000 then u_escape c
     else u_escape (0xD800 OR (drop_bit 10 (c - 0x10000) AND 0x3FF))
        @ u_escape (0xDC00 OR ((c - 0x10000) AND 0x3FF)))"

definition encode_basestring_ascii :: "pystr \<Rightarrow> string" where
  "encode_basestring_ascii s = CHR 0x22 # concat (map escape_char s) @ [CHR 0x22]"

definition digit_char :: "nat \<Rightarrow> char" where
  "digit_char d = ''0123456789'' ! (d mod 10)"

fun nat_digits :: "nat \<Rightarrow> string" where
  "nat_digits n = (if n < 10 then [digit_char n] else nat_digits (n div 10) @ [digit_char n])"

declare nat_digits.simps [simp del]

definition int_repr :: "int \<Rightarrow> string" where
  "int_repr i = (if i < 0 then CHR ''-'' # nat_digits (nat (- i)) else nat_digits (nat i))"

text \<open>
  \<^verbatim>\<open>float.__repr__\<close> in positional notation, which Python uses for a magnitude from
  \<^verbatim>\<open>1e-4\<close> up to \<^verbatim>\<open>1e16\<close>: the integer part, a point, and the digits after it with
  no trailing zero (a single \<^verbatim>\<open>0\<close> when there is none). \<open>frac_digits\<close> produces the
  digits of \<open>r / q\<close> for a remainder \<open>r < q\<close>, at most seventeen of them.
\<close>

fun frac_digits :: "nat \<Rightarrow> nat \<Rightarrow> nat \<Rightarrow> string" where
  "frac_digits 0 r q = []"
| "frac_digits (Suc k) r q =
     (if r = 0 then [] else digit_char (10 * r div q) # frac_digits k (10 * r mod q) q)"

definition float_repr :: "rat \<Rightarrow> string" where
  "float_repr x =
    (let (p, q) = quotient_of \<bar>x\<bar>; r = nat (p mod q)
     in (if x < 0 then ''-'' else [])
        @ nat_digits (nat (p div q)) @ ''.''
        @ (if r = 0 then ''0'' else frac_digits 17 r (nat q)))"

fun join :: "string \<Rightarrow> string list \<Rightarrow> string" where
  "join sep [] = []"
| "join sep [x] = x"
| "join sep (x # y # ys) = x @ sep @ join sep (y # ys)"

fun json_dumps :: "json \<Rightarrow> string" where
  "json_dumps JNull = ''null''"
| "json_dumps (JBool b) = (if b then ''true'' else ''false'')"
| "json_dumps (JInt i) = int_repr i"
| "json_dumps (JFloat x) = float_repr x"
| "json_dumps (JStr s) = encode_basestring_ascii s"
| "json_dumps (JList xs) = ''['' @ join '', '' (map json_dumps xs) @ '']''"
| "json_dumps (JDict kvs) =
     ''{'' @ join '', '' (map (\<lambda>kv. encode_basestring_ascii (fst kv) @ '': '' @ json_dumps (snd kv)) kvs)
        @ ''}''"

section \<open>The baked itinerary\<close>

text \<open>
  \<^verbatim>\<open>MOCK_TOKYO_TRIP\<close> is a list of dict literals that all have the keys
  \<^verbatim>\<open>day\<close>, \<^verbatim>\<open>summary\<close>, \<^verbatim>\<open>locations\<close>, each location a dict literal with the keys
  \<^verbatim>\<open>name\<close>, \<^verbatim>\<open>lat\<close>, \<^verbatim>\<open>lng\<close>, \<^verbatim>\<open>description\<close>, in this order. They are
  records here (the fields of the classes \<^verbatim>\<open>DayPlan\<close> and \<^verbatim>\<open>Location\<close> of the
  same file), so a subscript \<^verbatim>\<open>day_plan['day']\<close> is a field selection that cannot
  raise. A location dict is handed to \<^verbatim>\<open>json.dumps\<close> as it is; \<open>location_dict\<close> is
  that dict, with the keys in the order of the literal.
\<close>

record location =
  name :: pystr
  lat :: rat
  lng :: rat
  description :: pystr

record day_plan =
  day :: int
  summary :: pystr
  locations :: "location list"

definition location_dict :: "location \<Rightarrow> json" where
  "location_dict loc = JDict
     [(ascii ''name'', JStr (name loc)),
      (ascii ''lat'', JFloat (lat loc)),
      (ascii ''lng'', JFloat (lng loc)),
      (ascii ''description'', JStr (description loc))]"

definition MOCK_TOKYO_TRIP :: "day_plan list" where
  "MOCK_TOKYO_TRIP =
    [\<lparr>day = 1,
      summary = [0x62B5, 0x9054, 0x6771, 0x4EAC, 0xFF0C, 0x63A2, 0x7D22, 0x6DFA, 0x8349, 0x6587, 0x5316],
      locations =
       [\<lparr>name = [0x6210, 0x7530, 0x6A5F, 0x5834], lat = 35.7719, lng = 140.3929,
         description = [0x62B5, 0x9054, 0x65E5, 0x672C]\<rparr>,
        \<lparr>name = [0x6DFA, 0x8349, 0x5BFA], lat = 35.7147, lng = 139.7967,
         description = [0x6771, 0x4EAC, 0x6700, 0x53E4, 0x8001, 0x7684, 0x5BFA, 0x5EDF, 0xFF0C,
                        0x96F7, 0x9580, 0x6253, 0x5361]\<rparr>,
        \<lparr>name = [0x6674, 0x7A7A, 0x5854], lat = 35.7100, lng = 139.8107,
         description = [0x4FEF, 0x77B0, 0x6771, 0x4EAC, 0x591C, 0x666F]\<rparr>]\<rparr>,
     \<lparr>day = 2,
      summary = [0x6F6E, 0x6D41, 0x8207, 0x8CFC, 0x7269, 0x7684, 0x4E00, 0x5929],
      locations =
       [\<lparr>name = [0x6F80, 0x8C37, 0x5341, 0x5B57, 0x8DEF, 0x53E3], lat = 35.6594, lng = 139.7005,
         description = [0x4E16, 0x754C, 0x4E0A, 0x6700, 0x7E41, 0x5FD9, 0x7684, 0x5341, 0x5B57,
                        0x8DEF, 0x53E3]\<rparr>,
        \<lparr>name = [0x660E, 0x6CBB, 0x795E, 0x5BAE], lat = 35.6763, lng = 139.6993,
         description = [0x5E02, 0x4E2D, 0x5FC3, 0x7684, 0x68EE, 0x6797, 0x7DA0, 0x6D32]\<rparr>,
        \<lparr>name = [0x65B0, 0x5BBF, 0x5FA1, 0x82D1], lat = 35.6851, lng = 139.7100,
         description = [0x8457, 0x540D, 0x7684, 0x8CDE, 0x6AFB, 0x52DD, 0x5730]\<rparr>]\<rparr>]"

section \<open>The stream generator\<close>

text \<open>
  A run of the asynchronous generator \<^verbatim>\<open>ai_stream_generator\<close> is the list of what it
  does, in order: it yields a string or it awaits \<^verbatim>\<open>asyncio.sleep\<close> for a duration
  (in seconds, the decimal value of the literal). The generator has no other effect,
  no branch and no loop but the two \<^verbatim>\<open>for\<close> loops over finite lists, so a run is
  a finite list.
\<close>

datatype step = Yield string | Sleep rat

definition status_event :: "pystr \<Rightarrow> json" where
  "status_event content = JDict [(ascii ''type'', JStr (ascii ''status'')), (ascii ''content'', JStr content)]"

text \<open>The conversion \<^verbatim>\<open>{day_plan['day']}\<close> of an \<^verbatim>\<open>int\<close> inside the f-string.\<close>

definition format_int :: "int \<Rightarrow> pystr" where
  "format_int i = ascii (int_repr i)"

text \<open>
  The dict \<^verbatim>\<open>chunk\<close> built for one location: the day index, that single location and
  the day's summary.
\<close>

definition chunk :: "day_plan \<Rightarrow> location \<Rightarrow> json" where
  "chunk day_plan loc = JDict
     [(ascii ''type'', JStr (ascii ''data'')),
      (ascii ''day'', JInt (day day_plan)),
      (ascii ''location'', location_dict loc),
      (ascii ''summary'', JStr (summary day_plan))]"

text \<open>
  The inner loop \<^verbatim>\<open>for loc in day_plan['locations']\<close>, with the list
  \<^verbatim>\<open>current_locations\<close> it appends to as an argument.
\<close>

fun locations_loop :: "day_plan \<Rightarrow> location list \<Rightarrow> location list \<Rightarrow> step list" where
  "locations_loop day_plan current_locations [] = []"
| "locations_loop day_plan current_locations (loc # rest) =
     Sleep 0.8
     # Yield (json_dumps (chunk day_plan loc) @ [CHR 0x0A])
     # locations_loop day_plan (current_locations @ [loc]) rest"

text \<open>The outer loop \<^verbatim>\<open>for day_plan in MOCK_TOKYO_TRIP\<close>.\<close>

fun days_loop :: "day_plan list \<Rightarrow> step list" where
  "days_loop [] = []"
| "days_loop (day_plan # rest) =
     Yield (json_dumps (status_event
        ([0x6B63, 0x5728, 0x898F, 0x5283, 0x7B2C, 0x20] @ format_int (day day_plan)
          @ [0x20, 0x5929, 0xFF1A] @ summary day_plan)) @ [CHR 0x0A])
     # locations_loop day_plan [] (locations day_plan)
     @ days_loop rest"

definition ai_stream_generator :: "pystr \<Rightarrow> step list" where
  "ai_stream_generator prompt =
     [Yield (json_dumps (status_event
        [0x6B63, 0x5728, 0x5206, 0x6790, 0x60A8, 0x7684, 0x65C5, 0x904A, 0x9700, 0x6C42,
         0x2E, 0x2E, 0x2E]) @ [CHR 0x0A]),
      Sleep 1,
      Yield (json_dumps (status_event
        [0x6B63, 0x5728, 0x641C, 0x5C0B, 0x6771, 0x4EAC, 0x71B1, 0x9580, 0x666F, 0x9EDE,
         0x2E, 0x2E, 0x2E]) @ [CHR 0x0A]),
      Sleep 1,
      Yield (json_dumps (JDict
        [(ascii ''type'', JStr (ascii ''control'')),
         (ascii ''action'', JStr (ascii ''fly_to'')),
         (ascii ''data'', JDict
            [(ascii ''lat'', JFloat 35.6895), (ascii ''lng'', JFloat 139.6917),
             (ascii ''zoom'', JInt 10)])]) @ [CHR 0x0A]),
      Sleep 1.5]
     @ days_loop MOCK_TOKYO_TRIP
     @ [Yield (json_dumps (status_event [0x884C, 0x7A0B, 0x898F, 0x5283, 0x5B8C, 0x6210, 0xFF01])
          @ [CHR 0x0A])]"

text \<open>
  \<^verbatim>\<open>plan_trip\<close> wraps the generator in a \<^verbatim>\<open>StreamingResponse\<close>: the body is what
  the generator yields, chunk by chunk, under the media type given.
\<close>

fun yields :: "step list \<Rightarrow> string list" where
  "yields [] = []"
| "yields (Yield s # rest) = s # yields rest"
| "yields (Sleep d # rest) = yields rest"

record streaming_response =
  body :: "string list"
  media_type :: string

definition plan_trip :: "pystr \<Rightarrow> streaming_response" where
  "plan_trip prompt =
     \<lparr>body = yields (ai_stream_generator prompt), media_type = ''application/x-ndjson''\<rparr>"

section \<open>Reading the stream\<close>

text \<open>
  What a client of the endpoint does with the body: the chunks arrive one after the
  other as one text, the text is cut after every newline (a line keeps its newline, as
  a line read from a Python text stream does), and each line is read as one JSON
  document. \<open>json_loads\<close> is a reader for the JSON grammar (objects, arrays, strings
  with their escapes, numbers, \<^verbatim>\<open>true\<close>, \<^verbatim>\<open>false\<close>, \<^verbatim>\<open>null\<close>, blanks around
  the tokens); it is written from the grammar, independently of \<open>json_dumps\<close>.
  A number without fraction and exponent is an \<^verbatim>\<open>int\<close>, any other a \<^verbatim>\<open>float\<close>.
  The first argument of \<open>json_value\<close> bounds the number of nested calls, one element
  of the list for each; the text itself is always long enough, since every call consumes
  a character.
\<close>

fun lines_from :: "string \<Rightarrow> string \<Rightarrow> string list" where
  "lines_from cur [] = (if cur = [] then [] else [cur])"
| "lines_from cur (c # cs) =
     (if c = CHR 0x0A then (cur @ [c]) # lines_from [] cs else lines_from (cur @ [c]) cs)"

definition ndjson_lines :: "string list \<Rightarrow> string list" where
  "ndjson_lines chunks = lines_from [] (concat chunks)"

definition is_ws :: "char \<Rightarrow> bool" where
  "is_ws c = (c = CHR 0x20 \<or> c = CHR 0x09 \<or> c = CHR 0x0A \<or> c = CHR 0x0D)"

definition skip_ws :: "string \<Rightarrow> string" where
  "skip_ws cs = dropWhile is_ws cs"

definition is_digit :: "char \<Rightarrow> bool" where
  "is_digit c = (48 \<le> (of_char c :: nat) \<and> (of_char c :: nat) \<le> 57)"

definition digits_value :: "string \<Rightarrow> nat" where
  "digits_value ds = foldl (\<lambda>a c. 10 * a + (of_char c - 48)) 0 ds"

definition hex_value :: "char \<Rightarrow> nat option" where
  "hex_value c =
    (let n = of_char c
     in if 48 \<le> n \<and> n \<le> 57 then Some (n - 48)
        else if 97 \<le> n \<and> n \<le> 102 then Some (n - 87)
        else if 65 \<le> n \<and> n \<le> 70 then Some (n - 55)
        else None)"

fun hex4_value :: "string \<Rightarrow> nat option" where
  "hex4_value [a, b, c, d] =
     Option.bind (hex_value a) (\<lambda>w. Option.bind (hex_value b) (\<lambda>x.
     Option.bind (hex_value c) (\<lambda>y. Option.bind (hex_value d) (\<lambda>z.
       Some (((w * 16 + x) * 16 + y) * 16 + z)))))"
| "hex4_value cs = None"

definition short_escape :: "char \<Rightarrow> nat option" where
  "short_escape e =
    (if e = CHR 0x22 then Some 0x22
     else if e = CHR 0x5C then Some 0x5C
     else if e = CHR ''/'' then Some 0x2F
     else if e = CHR ''b'' then Some 0x08
     else if e = CHR ''f'' then Some 0x0C
     else if e = CHR ''n'' then Some 0x0A
     else if e = CHR ''r'' then Some 0x0D
     else if e = CHR ''t'' then Some 0x09
     else None)"

definition low_surrogate :: "string \<Rightarrow> nat option" where
  "low_surrogate cs =
    (case cs of
       b # u # rest \<Rightarrow>
         if b = CHR 0x5C \<and> u = CHR ''u'' then
           (case hex4_value (take 4 rest) of
              None \<Rightarrow> None
            | Some lo \<Rightarrow> if 0xDC00 \<le> lo \<and> lo < 0xE000 then Some lo else None)
         else None
     | _ \<Rightarrow> None)"

fun prepend :: "nat \<Rightarrow> (pystr \<times> string) option \<Rightarrow> (pystr \<times> string) option" where
  "prepend n None = None"
| "prepend n (Some (s, rest)) = Some (n # s, rest)"

text \<open>The text after an opening quote, up to the closing one.\<close>

fun string_body :: "string \<Rightarrow> (pystr \<times> string) option" where
  "string_body [] = None"
| "string_body (c # cs) =
    (if c = CHR 0x22 then Some ([], cs)
     else if c = CHR 0x5C then
       (case cs of
          [] \<Rightarrow> None
        | e # rest \<Rightarrow>
           if e = CHR ''u'' then
             (case hex4_value (take 4 rest) of
                None \<Rightarrow> None
              | Some hi \<Rightarrow>
                 (case (if 0xD800 \<le> hi \<and> hi < 0xDC00 then low_surrogate (drop 4 rest) else None) of
                    Some lo \<Rightarrow>
                      prepend (0x10000 + (hi - 0xD800) * 0x400 + (lo - 0xDC00))
                        (string_body (drop 10 rest))
                  | None \<Rightarrow> prepend hi (string_body (drop 4 rest))))
           else
             (case short_escape e of
                None \<Rightarrow> None
              | Some n \<Rightarrow> prepend n (string_body rest)))
     else if (of_char c :: nat) < 0x20 then None
     else prepend (of_char c) (string_body cs))"

definition exponent :: "string \<Rightarrow> (int \<times> string) option" where
  "exponent cs =
    (case cs of
       [] \<Rightarrow> None
     | e # r \<Rightarrow>
        if e = CHR ''e'' \<or> e = CHR ''E'' then
          (let neg = (r \<noteq> [] \<and> hd r = CHR ''-'');
               r1 = (if r \<noteq> [] \<and> (hd r = CHR ''-'' \<or> hd r = CHR ''+'') then tl r else r);
               xs = takeWhile is_digit r1
           in if xs = [] then None
              else Some (if neg then - int (digits_value xs) else int (digits_value xs),
                         drop (length xs) r1))
        else None)"

definition number :: "string \<Rightarrow> (json \<times> string) option" where
  "number cs =
    (let neg = (cs \<noteq> [] \<and> hd cs = CHR ''-'');
         cs1 = (if neg then tl cs else cs);
         ds = (if cs1 \<noteq> [] \<and> hd cs1 = CHR ''0'' then ''0'' else takeWhile is_digit cs1);
         cs2 = drop (length ds) cs1;
         fs = (case cs2 of [] \<Rightarrow> [] | p # r \<Rightarrow> if p = CHR ''.'' then takeWhile is_digit r else []);
         cs3 = (if fs = [] then cs2 else drop (Suc (length fs)) cs2);
         ex = exponent cs3;
         m = (of_nat (digits_value ds) + of_nat (digits_value fs) / 10 ^ length fs :: rat);
         sm = (if neg then - m else m)
     in if ds = [] then None
        else case ex of
          None \<Rightarrow>
            if fs = [] then
              Some (JInt (if neg then - int (digits_value ds) else int (digits_value ds)), cs3)
            else Some (JFloat sm, cs3)
        | Some (k, cs4) \<Rightarrow>
            Some (JFloat (if 0 \<le> k then sm * 10 ^ nat k else sm / 10 ^ nat (- k)), cs4))"

fun json_value :: "string \<Rightarrow> string \<Rightarrow> (json \<times> string) option"
  and json_members :: "string \<Rightarrow> string \<Rightarrow> ((pystr \<times> json) list \<times> string) option"
  and json_elements :: "string \<Rightarrow> string \<Rightarrow> (json list \<times> string) option" where
  "json_value [] cs = None"
| "json_value (f # n) [] = None"
| "json_value (f # n) (c # cs) =
    (if c = CHR ''{'' then
       (case skip_ws cs of
          [] \<Rightarrow> None
        | d # ds \<Rightarrow>
           if d = CHR ''}'' then Some (JDict [], ds)
           else (case json_members n (d # ds) of
                   None \<Rightarrow> None
                 | Some (kvs, rest) \<Rightarrow> Some (JDict kvs, rest)))
     else if c = CHR ''['' then
       (case skip_ws cs of
          [] \<Rightarrow> None
        | d # ds \<Rightarrow>
           if d = CHR '']'' then Some (JList [], ds)
           else (case json_elements n (d # ds) of
                   None \<Rightarrow> None
                 | Some (xs, rest) \<Rightarrow> Some (JList xs, rest)))
     else if c = CHR 0x22 then
       (case string_body cs of
          None \<Rightarrow> None
        | Some (s, rest) \<Rightarrow> Some (JStr s, rest))
     else if take 4 (c # cs) = ''true'' then Some (JBool True, drop 3 cs)
     else if take 5 (c # cs) = ''false'' then Some (JBool False, drop 4 cs)
     else if take 4 (c # cs) = ''null'' then Some (JNull, drop 3 cs)
     else number (c # cs))"
| "json_members [] cs = None"
| "json_members (f # n) [] = None"
| "json_members (f # n) (q # cs) =
    (if q \<noteq> CHR 0x22 then None
     else case string_body cs of
       None \<Rightarrow> None
     | Some (k, cs1) \<Rightarrow>
        (case skip_ws cs1 of
           [] \<Rightarrow> None
         | colon # cs2 \<Rightarrow>
            if colon \<noteq> CHR '':'' then None
            else case json_value n (skip_ws cs2) of
              None \<Rightarrow> None
            | Some (v, cs3) \<Rightarrow>
               (case skip_ws cs3 of
                  [] \<Rightarrow> None
                | d # cs4 \<Rightarrow>
                   if d = CHR ''}'' then Some ([(k, v)], cs4)
                   else if d = CHR '','' then
                     (case json_members n (skip_ws cs4) of
                        None \<Rightarrow> None
                      | Some (kvs, rest) \<Rightarrow> Some ((k, v) # kvs, rest))
                   else None)))"
| "json_elements [] cs = None"
| "json_elements (f # n) cs =
    (case json_value n cs of
       None \<Rightarrow> None
     | Some (v, cs1) \<Rightarrow>
        (case skip_ws cs1 of
           [] \<Rightarrow> None
         | d # cs2 \<Rightarrow>
            if d = CHR '']'' then Some ([v], cs2)
            else if d = CHR '','' then
              (case json_elements n (skip_ws cs2) of
                 None \<Rightarrow> None
               | Some (vs, rest) \<Rightarrow> Some (v # vs, rest))
            else None))"

definition json_loads :: "string \<Rightarrow> json option" where
  "json_loads s =
    (case json_value s (skip_ws s) of
       None \<Rightarrow> None
     | Some (v, rest) \<Rightarrow> if skip_ws rest = [] then Some v else None)"

fun read_lines :: "string list \<Rightarrow> json list option" where
  "read_lines [] = Some []"
| "read_lines (l # ls) =
     (case json_loads l of
        None \<Rightarrow> None
      | Some e \<Rightarrow> (case read_lines ls of None \<Rightarrow> None | Some es \<Rightarrow> Some (e # es)))"

text \<open>The events a client reads from the response to a prompt.\<close>

definition received :: "pystr \<Rightarrow> json list option" where
  "received prompt = read_lines (ndjson_lines (body (plan_trip prompt)))"

text \<open>Subscripting and the key list of a JSON object.\<close>

fun dict_get :: "json \<Rightarrow> pystr \<Rightarrow> json option" where
  "dict_get (JDict kvs) k = map_of kvs k"
| "dict_get v k = None"

fun dict_keys :: "json \<Rightarrow> pystr list" where
  "dict_keys (JDict kvs) = map fst kvs"
| "dict_keys v = []"

fun as_int :: "json \<Rightarrow> int option" where
  "as_int (JInt i) = Some i"
| "as_int v = None"

fun as_float :: "json \<Rightarrow> rat option" where
  "as_float (JFloat x) = Some x"
| "as_float v = None"

fun as_str :: "json \<Rightarrow> pystr option" where
  "as_str (JStr s) = Some s"
| "as_str v = None"

definition event_type :: "json \<Rightarrow> json option" where
  "event_type e = dict_get e (ascii ''type'')"

text \<open>The three kinds of event, told apart by the \<^verbatim>\<open>type\<close> member.\<close>

datatype kind = Status | Control | Data

definition kind_of :: "json \<Rightarrow> kind option" where
  "kind_of e =
     Option.bind (Option.bind (event_type e) as_str) (\<lambda>t.
       if t = ascii ''status'' then Some Status
       else if t = ascii ''control'' then Some Control
       else if t = ascii ''data'' then Some Data
       else None)"

definition is_data :: "json \<Rightarrow> bool" where
  "is_data e = (kind_of e = Some Data)"

text \<open>Printable ASCII: the characters from the blank to the tilde.\<close>

definition printable :: "char \<Rightarrow> bool" where
  "printable c = (0x20 \<le> (of_char c :: nat) \<and> (of_char c :: nat) \<le> 0x7E)"

text \<open>
  A run as an observer sees it: the kind of the event each yielded line holds, and each
  pause with its duration.
\<close>

datatype trace = Emitted "kind option" | Paused rat

fun trace_of :: "step \<Rightarrow> trace" where
  "trace_of (Yield s) = Emitted (Option.bind (json_loads s) kind_of)"
| "trace_of (Sleep d) = Paused d"

fun sleeps :: "step list \<Rightarrow> rat list" where
  "sleeps [] = []"
| "sleeps (Yield s # rest) = sleeps rest"
| "sleeps (Sleep d # rest) = d # sleeps rest"

text \<open>
  Rebuilding the itinerary from the \<^verbatim>\<open>data\<close> events: each event gives a day index, the
  day's summary and one location; consecutive events of one day index are collected, in
  the order of arrival, into one day.
\<close>

definition read_location :: "json \<Rightarrow> location option" where
  "read_location l =
     Option.bind (Option.bind (dict_get l (ascii ''name'')) as_str) (\<lambda>n.
     Option.bind (Option.bind (dict_get l (ascii ''lat'')) as_float) (\<lambda>la.
     Option.bind (Option.bind (dict_get l (ascii ''lng'')) as_float) (\<lambda>ln.
     Option.bind (Option.bind (dict_get l (ascii ''description'')) as_str) (\<lambda>d.
       if dict_keys l = [ascii ''name'', ascii ''lat'', ascii ''lng'', ascii ''description'']
       then Some \<lparr>name = n, lat = la, lng = ln, description = d\<rparr> else None))))"

definition data_point :: "json \<Rightarrow> (int \<times> pystr \<times> location) option" where
  "data_point e =
     Option.bind (Option.bind (dict_get e (ascii ''day'')) as_int) (\<lambda>d.
     Option.bind (Option.bind (dict_get e (ascii ''summary'')) as_str) (\<lambda>s.
     Option.bind (Option.bind (dict_get e (ascii ''location'')) read_location) (\<lambda>loc.
       Some (d, s, loc))))"

fun group_days :: "(int \<times> pystr \<times> location) list \<Rightarrow> day_plan list" where
  "group_days [] = []"
| "group_days ((d, s, loc) # rest) =
     (case group_days rest of
        [] \<Rightarrow> [\<lparr>day = d, summary = s, locations = [loc]\<rparr>]
      | dp # dps \<Rightarrow>
         if day dp = d then dp\<lparr>locations := loc # locations dp\<rparr> # dps
         else \<lparr>day = d, summary = s, locations = [loc]\<rparr> # dp # dps)"

definition reconstruct :: "json list \<Rightarrow> day_plan list option" where
  "reconstruct es = map_option group_days (those (map data_point (filter is_data es)))"

section \<open>The events of the script\<close>

text \<open>
  The objects the generator hands to \<^verbatim>\<open>json.dumps\<close>, in the order of its yields: the
  three of the preamble, for each day the day's status and one \<^verbatim>\<open>chunk\<close> per
  location, and the closing status.
\<close>

definition day_status :: "day_plan \<Rightarrow> json" where
  "day_status day_plan = status_event
     ([0x6B63, 0x5728, 0x898F, 0x5283, 0x7B2C, 0x20] @ format_int (day day_plan)
        @ [0x20, 0x5929, 0xFF1A] @ summary day_plan)"

definition day_events :: "day_plan \<Rightarrow> json list" where
  "day_events day_plan = day_status day_plan # map (chunk day_plan) (locations day_plan)"

definition analysing :: json where
  "analysing = status_event
     [0x6B63, 0x5728, 0x5206, 0x6790, 0x60A8, 0x7684, 0x65C5, 0x904A, 0x9700, 0x6C42,
      0x2E, 0x2E, 0x2E]"

definition searching :: json where
  "searching = status_event
     [0x6B63, 0x5728, 0x641C, 0x5C0B, 0x6771, 0x4EAC, 0x71B1, 0x9580, 0x666F, 0x9EDE,
      0x2E, 0x2E, 0x2E]"

definition fly_to :: json where
  "fly_to = JDict
     [(ascii ''type'', JStr (ascii ''control'')),
      (ascii ''action'', JStr (ascii ''fly_to'')),
      (ascii ''data'', JDict
         [(ascii ''lat'', JFloat 35.6895), (ascii ''lng'', JFloat 139.6917),
          (ascii ''zoom'', JInt 10)])]"

definition completed :: json where
  "completed = status_event [0x884C, 0x7A0B, 0x898F, 0x5283, 0x5B8C, 0x6210, 0xFF01]"

definition scripted_events :: "day_plan list \<Rightarrow> json list" where
  "scripted_events trip =
     [analysing, searching, fly_to] @ concat (map day_events trip) @ [completed]"

definition line :: "json \<Rightarrow> string" where
  "line e = json_dumps e @ [CHR 0x0A]"

section \<open>The generator without \<^verbatim>\<open>current_locations\<close>\<close>

text \<open>
  The same generator with the list \<^verbatim>\<open>current_locations\<close> and the \<^verbatim>\<open>append\<close> to
  it removed, and nothing else changed.
\<close>

fun locations_loop_simplified :: "day_plan \<Rightarrow> location list \<Rightarrow> step list" where
  "locations_loop_simplified day_plan [] = []"
| "locations_loop_simplified day_plan (loc # rest) =
     Sleep 0.8
     # Yield (json_dumps (chunk day_plan loc) @ [CHR 0x0A])
     # locations_loop_simplified day_plan rest"

fun days_loop_simplified :: "day_plan list \<Rightarrow> step list" where
  "days_loop_simplified [] = []"
| "days_loop_simplified (day_plan # rest) =
     Yield (json_dumps (status_event
        ([0x6B63, 0x5728, 0x898F, 0x5283, 0x7B2C, 0x20] @ format_int (day day_plan)
          @ [0x20, 0x5929, 0xFF1A] @ summary day_plan)) @ [CHR 0x0A])
     # locations_loop_simplified day_plan (locations day_plan)
     @ days_loop_simplified rest"

definition ai_stream_generator_simplified :: "pystr \<Rightarrow> step list" where
  "ai_stream_generator_simplified prompt =
     [Yield (json_dumps (status_event
        [0x6B63, 0x5728, 0x5206, 0x6790, 0x60A8, 0x7684, 0x65C5, 0x904A, 0x9700, 0x6C42,
         0x2E, 0x2E, 0x2E]) @ [CHR 0x0A]),
      Sleep 1,
      Yield (json_dumps (status_event
        [0x6B63, 0x5728, 0x641C, 0x5C0B, 0x6771, 0x4EAC, 0x71B1, 0x9580, 0x666F, 0x9EDE,
         0x2E, 0x2E, 0x2E]) @ [CHR 0x0A]),
      Sleep 1,
      Yield (json_dumps (JDict
        [(ascii ''type'', JStr (ascii ''control'')),
         (ascii ''action'', JStr (ascii ''fly_to'')),
         (ascii ''data'', JDict
            [(ascii ''lat'', JFloat 35.6895), (ascii ''lng'', JFloat 139.6917),
             (ascii ''zoom'', JInt 10)])]) @ [CHR 0x0A]),
      Sleep 1.5]
     @ days_loop_simplified MOCK_TOKYO_TRIP
     @ [Yield (json_dumps (status_event [0x884C, 0x7A0B, 0x898F, 0x5283, 0x5B8C, 0x6210, 0xFF01])
          @ [CHR 0x0A])]"

section \<open>What the encoder writes\<close>

text \<open>
  Whatever the value, \<open>json_dumps\<close> writes printable ASCII only: every character of a
  string outside that range is escaped, and the digits and the punctuation are inside it.
  In particular the text holds no newline.
\<close>

lemma printable_Char:
  "printable (Char b0 b1 b2 b3 b4 b5 b6 b7) =
     (0x20 \<le> (of_char (Char b0 b1 b2 b3 b4 b5 b6 b7) :: nat)
      \<and> (of_char (Char b0 b1 b2 b3 b4 b5 b6 b7) :: nat) \<le> 0x7E)"
  by (simp only: printable_def)

lemma hex_digit_printable: "printable (hex_digit d)"
proof -
  have "list_all printable ''0123456789abcdef''"
    by (simp add: printable_Char)
  moreover have "d mod 16 < length ''0123456789abcdef''"
    by simp
  ultimately show ?thesis
    unfolding hex_digit_def list_all_length by blast
qed

lemma digit_char_printable: "printable (digit_char d)"
proof -
  have "list_all printable ''0123456789''"
    by (simp add: printable_Char)
  moreover have "d mod 10 < length ''0123456789''"
    by simp
  ultimately show ?thesis
    unfolding digit_char_def list_all_length by blast
qed

lemma nat_digits_printable: "list_all printable (nat_digits n)"
proof (induction n rule: nat_digits.induct)
  case (1 n)
  show ?case
  proof (cases "n < 10")
    case True
    then show ?thesis
      by (simp add: nat_digits.simps [of n] digit_char_printable)
  next
    case False
    with "1" show ?thesis
      by (simp add: nat_digits.simps [of n] digit_char_printable)
  qed
qed

lemma int_repr_printable: "list_all printable (int_repr i)"
  by (simp add: int_repr_def nat_digits_printable printable_Char)

lemma frac_digits_printable: "list_all printable (frac_digits k r q)"
  by (induction k arbitrary: r) (simp_all add: digit_char_printable)

lemma float_repr_printable: "list_all printable (float_repr x)"
  by (simp add: float_repr_def Let_def nat_digits_printable frac_digits_printable printable_Char
      split: prod.split)

lemma u_escape_printable: "list_all printable (u_escape n)"
  by (simp add: u_escape_def hex4_def hex_digit_printable printable_Char)

lemma char_of_printable: "0x20 \<le> c \<Longrightarrow> c \<le> 0x7E \<Longrightarrow> printable (char_of (c::nat))"
  by (simp add: printable_def)

lemma escape_char_printable: "list_all printable (escape_char c)"
  by (simp add: escape_char_def u_escape_printable char_of_printable printable_Char)

lemma encode_basestring_ascii_printable: "list_all printable (encode_basestring_ascii s)"
proof -
  have "list_all printable (concat (map escape_char s))"
    by (induction s) (simp_all add: escape_char_printable)
  then show ?thesis
    by (simp add: encode_basestring_ascii_def printable_Char)
qed

lemma join_printable:
  "list_all printable sep \<Longrightarrow> list_all (list_all printable) xs \<Longrightarrow> list_all printable (join sep xs)"
  by (induction sep xs rule: join.induct) simp_all

lemma json_dumps_printable: "list_all printable (json_dumps v)"
proof (induction v)
  case (JList xs)
  then have "list_all (list_all printable) (map json_dumps xs)"
    by (simp add: list_all_iff)
  then have "list_all printable (join '', '' (map json_dumps xs))"
    by (intro join_printable) (simp_all add: printable_Char)
  then show ?case by (simp add: printable_Char)
next
  case (JDict kvs)
  have "list_all (list_all printable)
          (map (\<lambda>kv. encode_basestring_ascii (fst kv) @ '': '' @ json_dumps (snd kv)) kvs)"
    unfolding list_all_iff
  proof
    fix s assume "s \<in> set (map (\<lambda>kv. encode_basestring_ascii (fst kv) @ '': '' @ json_dumps (snd kv)) kvs)"
    then obtain kv where kv: "kv \<in> set kvs"
      and s: "s = encode_basestring_ascii (fst kv) @ '': '' @ json_dumps (snd kv)"
      by auto
    have "list_all printable (json_dumps (snd kv))"
      by (rule JDict [OF kv]) (cases kv, simp)
    then have "list_all printable s"
      using encode_basestring_ascii_printable [of "fst kv"]
      by (simp add: s printable_Char)
    then show "Ball (set s) printable"
      by (simp add: list_all_iff)
  qed
  then have "list_all printable
      (join '', '' (map (\<lambda>kv. encode_basestring_ascii (fst kv) @ '': '' @ json_dumps (snd kv)) kvs))"
    by (intro join_printable) (simp_all add: printable_Char)
  then show ?case by (simp add: printable_Char)
qed (simp_all add: int_repr_printable float_repr_printable encode_basestring_ascii_printable
      printable_Char)

lemma json_dumps_no_newline: "CHR 0x0A \<notin> set (json_dumps v)"
proof
  assume "CHR 0x0A \<in> set (json_dumps v)"
  with json_dumps_printable [of v] have "printable (CHR 0x0A)"
    by (simp add: list_all_iff)
  then show False by (simp add: printable_def)
qed

section \<open>The run of the generator\<close>

text \<open>
  Each yield of the generator is \<open>line e\<close> for the next of the scripted events, so the
  chunks of the body are its lines; the two loops pause once for each location.
\<close>

lemma lines_from_line:
  "CHR 0x0A \<notin> set l \<Longrightarrow>
     lines_from cur (l @ CHR 0x0A # rest) = (cur @ l @ [CHR 0x0A]) # lines_from [] rest"
  by (induction l arbitrary: cur) auto

lemma line_eq: "line = (\<lambda>e. json_dumps e @ [CHR 0x0A])"
  by (rule ext) (simp add: line_def)

lemma ndjson_lines_of_lines: "ndjson_lines (map line es) = map line es"
proof -
  have "lines_from [] (concat (map (\<lambda>e. json_dumps e @ [CHR 0x0A]) es))
          = map (\<lambda>e. json_dumps e @ [CHR 0x0A]) es"
    by (induction es) (simp_all add: lines_from_line json_dumps_no_newline)
  then show ?thesis
    by (simp add: ndjson_lines_def line_eq)
qed

lemma yields_append: "yields (xs @ ys) = yields xs @ yields ys"
  by (induction xs rule: yields.induct) simp_all

lemma sleeps_append: "sleeps (xs @ ys) = sleeps xs @ sleeps ys"
  by (induction xs rule: sleeps.induct) simp_all

lemma yields_locations_loop:
  "yields (locations_loop day_plan acc locs) = map (\<lambda>loc. line (chunk day_plan loc)) locs"
  by (induction locs arbitrary: acc) (simp_all add: line_def)

lemma yields_days_loop:
  "yields (days_loop trip) = map line (concat (map day_events trip))"
  by (induction trip)
     (simp_all add: yields_append yields_locations_loop day_events_def day_status_def line_def)

lemma yields_generator:
  "yields (ai_stream_generator prompt) = map line (scripted_events MOCK_TOKYO_TRIP)"
  by (simp add: ai_stream_generator_def scripted_events_def yields_append yields_days_loop
      analysing_def searching_def fly_to_def completed_def line_def)

lemma sleeps_locations_loop:
  "sleeps (locations_loop day_plan acc locs) = replicate (length locs) 0.8"
  by (induction locs arbitrary: acc) simp_all

lemma sleeps_days_loop:
  "sleeps (days_loop trip) = replicate (sum_list (map (\<lambda>d. length (locations d)) trip)) 0.8"
  by (induction trip) (simp_all add: sleeps_append sleeps_locations_loop replicate_add)

lemma locations_loop_simplified:
  "locations_loop day_plan acc locs = locations_loop_simplified day_plan locs"
  by (induction locs arbitrary: acc) simp_all

lemma days_loop_simplified: "days_loop trip = days_loop_simplified trip"
  by (induction trip) (simp_all add: locations_loop_simplified)

lemma read_event_0:
  "json_loads (line (scripted_events MOCK_TOKYO_TRIP ! 0)) = Some (scripted_events MOCK_TOKYO_TRIP ! 0)"
  by code_simp

lemma read_event_1:
  "json_loads (line (scripted_events MOCK_TOKYO_TRIP ! 1)) = Some (scripted_events MOCK_TOKYO_TRIP ! 1)"
  by code_simp

lemma read_event_2:
  "json_loads (line (scripted_events MOCK_TOKYO_TRIP ! 2)) = Some (scripted_events MOCK_TOKYO_TRIP ! 2)"
  by code_simp

lemma read_event_3:
  "json_loads (line (scripted_events MOCK_TOKYO_TRIP ! 3)) = Some (scripted_events MOCK_TOKYO_TRIP ! 3)"
  by code_simp

lemma read_event_4:
  "json_loads (line (scripted_events MOCK_TOKYO_TRIP ! 4)) = Some (scripted_events MOCK_TOKYO_TRIP ! 4)"
  by code_simp

lemma read_event_5:
  "json_loads (line (scripted_events MOCK_TOKYO_TRIP ! 5)) = Some (scripted_events MOCK_TOKYO_TRIP ! 5)"
  by code_simp

lemma read_event_6:
  "json_loads (line (scripted_events MOCK_TOKYO_TRIP ! 6)) = Some (scripted_events MOCK_TOKYO_TRIP ! 6)"
  by code_simp

lemma read_event_7:
  "json_loads (line (scripted_events MOCK_TOKYO_TRIP ! 7)) = Some (scripted_events MOCK_TOKYO_TRIP ! 7)"
  by code_simp

lemma read_event_8:
  "json_loads (line (scripted_events MOCK_TOKYO_TRIP ! 8)) = Some (scripted_events MOCK_TOKYO_TRIP ! 8)"
  by code_simp

lemma read_event_9:
  "json_loads (line (scripted_events MOCK_TOKYO_TRIP ! 9)) = Some (scripted_events MOCK_TOKYO_TRIP ! 9)"
  by code_simp

lemma read_event_10:
  "json_loads (line (scripted_events MOCK_TOKYO_TRIP ! 10)) = Some (scripted_events MOCK_TOKYO_TRIP ! 10)"
  by code_simp

lemma read_event_11:
  "json_loads (line (scripted_events MOCK_TOKYO_TRIP ! 11)) = Some (scripted_events MOCK_TOKYO_TRIP ! 11)"
  by code_simp

lemma length_scripted_events:
  "length (scripted_events trip) = 4 + length trip + sum_list (map (\<lambda>d. length (locations d)) trip)"
  by (induction trip) (simp_all add: scripted_events_def day_events_def)

lemma length_scripted_tokyo: "length (scripted_events MOCK_TOKYO_TRIP) = 12"
  by (simp add: length_scripted_events) (simp add: MOCK_TOKYO_TRIP_def)

lemma read_lines_all:
  "(\<And>e. e \<in> set es \<Longrightarrow> json_loads (line e) = Some e) \<Longrightarrow> read_lines (map line es) = Some es"
  by (induction es) simp_all

lemma read_scripted_events:
  "read_lines (map line (scripted_events MOCK_TOKYO_TRIP)) = Some (scripted_events MOCK_TOKYO_TRIP)"
proof (rule read_lines_all)
  fix e assume "e \<in> set (scripted_events MOCK_TOKYO_TRIP)"
  then obtain i where i: "i < 12" and e: "e = scripted_events MOCK_TOKYO_TRIP ! i"
    by (auto simp: in_set_conv_nth length_scripted_tokyo)
  from i have "i = 0 \<or> i = 1 \<or> i = 2 \<or> i = 3 \<or> i = 4 \<or> i = 5 \<or> i = 6 \<or> i = 7 \<or> i = 8
      \<or> i = 9 \<or> i = 10 \<or> i = 11"
    by arith
  then show "json_loads (line e) = Some e"
    unfolding e
    using read_event_0 read_event_1 read_event_2 read_event_3 read_event_4 read_event_5
      read_event_6 read_event_7 read_event_8 read_event_9 read_event_10 read_event_11
    by blast
qed

lemma received_events: "received prompt = Some (scripted_events MOCK_TOKYO_TRIP)"
  by (simp add: received_def plan_trip_def yields_generator ndjson_lines_of_lines
      read_scripted_events)

lemma kinds_scripted_tokyo:
  "map kind_of (scripted_events MOCK_TOKYO_TRIP) =
     [Some Status, Some Status, Some Control,
      Some Status, Some Data, Some Data, Some Data,
      Some Status, Some Data, Some Data, Some Data,
      Some Status]"
  by code_simp

lemma count_locations_tokyo: "map (\<lambda>d. length (locations d)) MOCK_TOKYO_TRIP = [3, 3]"
  by (simp add: MOCK_TOKYO_TRIP_def)

lemma kind_of_status_event: "kind_of (status_event c) = Some Status"
  by (simp add: kind_of_def event_type_def status_event_def ascii_def)

lemma kind_of_chunk: "kind_of (chunk day_plan loc) = Some Data"
  by (simp add: kind_of_def event_type_def chunk_def ascii_def)

lemma kind_of_fly_to: "kind_of fly_to = Some Control"
  by (simp add: kind_of_def event_type_def fly_to_def ascii_def)

lemma read_scripted_event:
  assumes "e \<in> set (scripted_events MOCK_TOKYO_TRIP)"
  shows "json_loads (line e) = Some e"
proof -
  from assms obtain i where i: "i < 12" and e: "e = scripted_events MOCK_TOKYO_TRIP ! i"
    by (auto simp: in_set_conv_nth length_scripted_tokyo)
  from i have "i = 0 \<or> i = 1 \<or> i = 2 \<or> i = 3 \<or> i = 4 \<or> i = 5 \<or> i = 6 \<or> i = 7 \<or> i = 8
      \<or> i = 9 \<or> i = 10 \<or> i = 11"
    by arith
  then show ?thesis
    unfolding e
    using read_event_0 read_event_1 read_event_2 read_event_3 read_event_4 read_event_5
      read_event_6 read_event_7 read_event_8 read_event_9 read_event_10 read_event_11
    by blast
qed

lemma butlast_line: "butlast (line e) = json_dumps e"
  by (simp add: line_def butlast_append)

lemma scripted_events_dicts: "e \<in> set (scripted_events trip) \<Longrightarrow> \<exists>kvs. e = JDict kvs"
  by (auto simp: scripted_events_def analysing_def searching_def fly_to_def completed_def
      day_events_def day_status_def status_event_def chunk_def)

lemma trace_locations_loop:
  assumes "\<And>loc. loc \<in> set locs \<Longrightarrow> json_loads (line (chunk dp loc)) = Some (chunk dp loc)"
  shows "map trace_of (locations_loop dp acc locs)
           = concat (map (\<lambda>loc. [Paused 0.8, Emitted (Some Data)]) locs)"
  using assms by (induction locs arbitrary: acc) (simp_all add: line_def kind_of_chunk)

lemma trace_days_loop:
  assumes "\<And>e. e \<in> set (concat (map day_events trip)) \<Longrightarrow> json_loads (line e) = Some e"
  shows "map trace_of (days_loop trip)
           = concat (map (\<lambda>dp. Emitted (Some Status)
                 # concat (map (\<lambda>loc. [Paused 0.8, Emitted (Some Data)]) (locations dp))) trip)"
  using assms
proof (induction trip)
  case Nil
  show ?case by simp
next
  case (Cons dp trip)
  have "json_loads (line (day_status dp)) = Some (day_status dp)"
    by (rule Cons.prems) (simp add: day_events_def)
  then have s: "trace_of (Yield (json_dumps (day_status dp) @ [CHR 0x0A])) = Emitted (Some Status)"
    by (simp add: line_def day_status_def kind_of_status_event)
  have l: "map trace_of (locations_loop dp [] (locations dp))
        = concat (map (\<lambda>loc. [Paused 0.8, Emitted (Some Data)]) (locations dp))"
    by (rule trace_locations_loop, rule Cons.prems) (simp add: day_events_def)
  have r: "map trace_of (days_loop trip)
        = concat (map (\<lambda>dp. Emitted (Some Status)
              # concat (map (\<lambda>loc. [Paused 0.8, Emitted (Some Data)]) (locations dp))) trip)"
    by (rule Cons.IH, rule Cons.prems) simp
  from s show ?case
    by (simp add: l r day_status_def)
qed

lemma generator_steps:
  "ai_stream_generator prompt =
     [Yield (line analysing), Sleep 1, Yield (line searching), Sleep 1, Yield (line fly_to),
      Sleep 1.5]
     @ days_loop MOCK_TOKYO_TRIP @ [Yield (line completed)]"
  by (simp add: ai_stream_generator_def line_def analysing_def searching_def fly_to_def
      completed_def)

lemma trace_line:
  "e \<in> set (scripted_events MOCK_TOKYO_TRIP) \<Longrightarrow> trace_of (Yield (line e)) = Emitted (kind_of e)"
  by (simp add: read_scripted_event)

lemma reconstruct_scripted_tokyo:
  "reconstruct (scripted_events MOCK_TOKYO_TRIP) = Some MOCK_TOKYO_TRIP"
  by code_simp

lemma data_events_tokyo:
  "those (map data_point (filter is_data (scripted_events MOCK_TOKYO_TRIP))) =
     Some (concat (map (\<lambda>dp. map (\<lambda>loc. (day dp, summary dp, loc)) (locations dp)) MOCK_TOKYO_TRIP))"
  by code_simp

lemma within_day_tokyo:
  "\<forall>dp\<in>set MOCK_TOKYO_TRIP.
     map (\<lambda>e. dict_get e (ascii ''location''))
       (filter (\<lambda>e. is_data e \<and> dict_get e (ascii ''day'') = Some (JInt (day dp)))
          (scripted_events MOCK_TOKYO_TRIP))
     = map (\<lambda>loc. Some (location_dict loc)) (locations dp)"
  by code_simp

lemma data_days_tokyo:
  "map (\<lambda>e. dict_get e (ascii ''day'')) (filter is_data (scripted_events MOCK_TOKYO_TRIP))
     = map (\<lambda>d. Some (JInt d)) [1, 1, 1, 2, 2, 2]"
  by code_simp

lemma days_tokyo: "map day MOCK_TOKYO_TRIP = [1, 2]"
  by (simp add: MOCK_TOKYO_TRIP_def)

lemma is_data_chunk: "is_data (chunk dp loc)"
  by (simp add: is_data_def kind_of_chunk)

lemma not_data_status_event: "\<not> is_data (status_event c)"
  by (simp add: is_data_def kind_of_status_event)

lemma not_data_fly_to: "\<not> is_data fly_to"
  by (simp add: is_data_def kind_of_fly_to)

lemma chunk_day: "dict_get (chunk dp loc) (ascii ''day'') = Some (JInt (day dp))"
  by (simp add: chunk_def ascii_def)

lemma status_events_distinct_tokyo:
  "distinct [analysing, searching, completed, fly_to,
     day_status (MOCK_TOKYO_TRIP ! 0), day_status (MOCK_TOKYO_TRIP ! 1)]"
  by code_simp

lemma ordering_tokyo:
  "(\<forall>i<length (scripted_events MOCK_TOKYO_TRIP). is_data (scripted_events MOCK_TOKYO_TRIP ! i) \<longrightarrow>
      (\<exists>j<i. \<exists>dp\<in>set MOCK_TOKYO_TRIP.
          scripted_events MOCK_TOKYO_TRIP ! j = day_status dp
        \<and> dict_get (scripted_events MOCK_TOKYO_TRIP ! i) (ascii ''day'') = Some (JInt (day dp))
        \<and> (\<forall>k<i. j < k \<longrightarrow> is_data (scripted_events MOCK_TOKYO_TRIP ! k)
              \<and> dict_get (scripted_events MOCK_TOKYO_TRIP ! k) (ascii ''day'') = Some (JInt (day dp)))))
   \<and> (\<forall>i<length (scripted_events MOCK_TOKYO_TRIP). \<forall>j<length (scripted_events MOCK_TOKYO_TRIP).
       \<forall>dp\<in>set MOCK_TOKYO_TRIP. \<forall>dp'\<in>set MOCK_TOKYO_TRIP.
         is_data (scripted_events MOCK_TOKYO_TRIP ! i)
         \<and> dict_get (scripted_events MOCK_TOKYO_TRIP ! i) (ascii ''day'') = Some (JInt (day dp))
         \<and> scripted_events MOCK_TOKYO_TRIP ! j = day_status dp' \<and> day dp < day dp'
         \<longrightarrow> i < j)"
proof -
  define d1 where "d1 = MOCK_TOKYO_TRIP ! 0"
  define d2 where "d2 = MOCK_TOKYO_TRIP ! 1"
  have trip: "MOCK_TOKYO_TRIP = [d1, d2]"
    by (simp add: d1_def d2_def MOCK_TOKYO_TRIP_def)
  have days: "day d1 = 1" "day d2 = 2"
    by (simp_all add: d1_def d2_def MOCK_TOKYO_TRIP_def)
  obtain a1 a2 a3 where l1: "locations d1 = [a1, a2, a3]"
    by (simp add: d1_def MOCK_TOKYO_TRIP_def)
  obtain b1 b2 b3 where l2: "locations d2 = [b1, b2, b3]"
    by (simp add: d2_def MOCK_TOKYO_TRIP_def)
  have es: "scripted_events MOCK_TOKYO_TRIP =
      [analysing, searching, fly_to,
       day_status d1, chunk d1 a1, chunk d1 a2, chunk d1 a3,
       day_status d2, chunk d2 b1, chunk d2 b2, chunk d2 b3,
       completed]"
    by (simp add: scripted_events_def trip day_events_def l1 l2)
  have nd: "\<not> is_data analysing" "\<not> is_data searching" "\<not> is_data completed" "\<not> is_data fly_to"
    "\<And>dp. \<not> is_data (day_status dp)"
    by (simp_all add: analysing_def searching_def completed_def day_status_def
        not_data_status_event not_data_fly_to)
  have ne: "\<And>dp loc dp'. chunk dp loc \<noteq> day_status dp'"
    using nd(5) is_data_chunk by metis
  have di: "distinct [analysing, searching, completed, fly_to, day_status d1, day_status d2]"
    using status_events_distinct_tokyo by (simp only: d1_def d2_def)
  have dj: "JInt 1 \<noteq> JInt 2" "JInt 2 \<noteq> JInt 1"
    by simp_all
  show ?thesis
    unfolding es unfolding trip using di
    by (simp add: All_less_Suc Ex_less_Suc nd ne is_data_chunk chunk_day days)
qed

lemma data_event_5_tokyo:
  "5 < length (scripted_events MOCK_TOKYO_TRIP) \<and> is_data (scripted_events MOCK_TOKYO_TRIP ! 5)"
proof -
  have "kind_of (scripted_events MOCK_TOKYO_TRIP ! 5) = map kind_of (scripted_events MOCK_TOKYO_TRIP) ! 5"
    by (simp add: length_scripted_tokyo)
  then show ?thesis
    by (simp add: kinds_scripted_tokyo length_scripted_tokyo is_data_def)
qed

lemma filter_data_day_events: "filter is_data (day_events dp) = map (chunk dp) (locations dp)"
proof -
  have "filter is_data (map (chunk dp) (locations dp)) = map (chunk dp) (locations dp)"
    by (induction "locations dp") (simp_all add: filter_map comp_def is_data_chunk)
  then show ?thesis
    by (simp add: day_events_def day_status_def not_data_status_event)
qed

lemma filter_data_scripted:
  "filter is_data (scripted_events trip) = concat (map (\<lambda>dp. map (chunk dp) (locations dp)) trip)"
proof -
  have "filter is_data (concat (map day_events trip))
          = concat (map (\<lambda>dp. map (chunk dp) (locations dp)) trip)"
    by (induction trip) (simp_all add: filter_data_day_events)
  then show ?thesis
    by (simp add: scripted_events_def analysing_def searching_def completed_def
        not_data_status_event not_data_fly_to)
qed

lemma chunk_location: "dict_get (chunk dp loc) (ascii ''location'') = Some (location_dict loc)"
  by (simp add: chunk_def ascii_def)

lemma chunk_locations:
  "map (\<lambda>e. dict_get e (ascii ''location'')) (concat (map (\<lambda>dp. map (chunk dp) (locations dp)) trip))
     = map (\<lambda>loc. Some (location_dict loc)) (concat (map locations trip))"
  by (induction trip) (simp_all add: chunk_location comp_def)

lemma days_scripted_tokyo:
  "map (\<lambda>e. dict_get e (ascii ''day'')) (scripted_events MOCK_TOKYO_TRIP) =
     [None, None, None,
      None, Some (JInt 1), Some (JInt 1), Some (JInt 1),
      None, Some (JInt 2), Some (JInt 2), Some (JInt 2),
      None]"
  by code_simp

lemma day_statuses_tokyo:
  "[scripted_events MOCK_TOKYO_TRIP ! 3, scripted_events MOCK_TOKYO_TRIP ! 7]
     = map day_status MOCK_TOKYO_TRIP"
  by code_simp

lemma day_contents_tokyo:
  "map (\<lambda>e. dict_get e (ascii ''content''))
      [scripted_events MOCK_TOKYO_TRIP ! 3, scripted_events MOCK_TOKYO_TRIP ! 7] =
     [Some (JStr ([0x6B63, 0x5728, 0x898F, 0x5283, 0x7B2C, 0x20] @ ascii ''1''
              @ [0x20, 0x5929, 0xFF1A] @ summary (MOCK_TOKYO_TRIP ! 0))),
      Some (JStr ([0x6B63, 0x5728, 0x898F, 0x5283, 0x7B2C, 0x20] @ ascii ''2''
              @ [0x20, 0x5929, 0xFF1A] @ summary (MOCK_TOKYO_TRIP ! 1)))]"
  by code_simp

lemma day_locations_tokyo:
  "map (\<lambda>e. dict_get e (ascii ''location'')) (take 3 (drop 4 (scripted_events MOCK_TOKYO_TRIP)))
     = map (\<lambda>loc. Some (location_dict loc)) (locations (MOCK_TOKYO_TRIP ! 0))"
  "map (\<lambda>e. dict_get e (ascii ''location'')) (take 3 (drop 8 (scripted_events MOCK_TOKYO_TRIP)))
     = map (\<lambda>loc. Some (location_dict loc)) (locations (MOCK_TOKYO_TRIP ! 1))"
  by code_simp+

lemma day_summaries_tokyo:
  "map (\<lambda>e. dict_get e (ascii ''summary'')) (scripted_events MOCK_TOKYO_TRIP) =
     [None, None, None,
      None, Some (JStr (summary (MOCK_TOKYO_TRIP ! 0))), Some (JStr (summary (MOCK_TOKYO_TRIP ! 0))),
        Some (JStr (summary (MOCK_TOKYO_TRIP ! 0))),
      None, Some (JStr (summary (MOCK_TOKYO_TRIP ! 1))), Some (JStr (summary (MOCK_TOKYO_TRIP ! 1))),
        Some (JStr (summary (MOCK_TOKYO_TRIP ! 1))),
      None]"
  by code_simp

section \<open>Properties of the stream\<close>

text \<open>
  C1. For the prompt \<^verbatim>\<open>Tokyo 3 days\<close> the body of the response of \<^verbatim>\<open>plan_trip\<close>
  (media type \<^verbatim>\<open>application/x-ndjson\<close>) is twelve lines, one per chunk, and read
  as JSON they are, in this order: two status events, one control event, a status event
  and three data events for day 1, a status event and three data events for day 2, and a
  last status event. The number of data events is the number of locations of the baked
  itinerary, 3 + 3. The two groups are those of day 1 and of day 2, in this order: the
  fourth and the eighth event are the status events of the first and of the second day
  of the itinerary (their contents name the days 1 and 2 and give the days' summaries),
  the three data events after each carry that day's index and summary, and their
  locations are the locations of that day, in the itinerary's order.
\<close>

theorem tokyo_3_days:
  "ndjson_lines (body (plan_trip (ascii ''Tokyo 3 days''))) = body (plan_trip (ascii ''Tokyo 3 days''))
   \<and> length (body (plan_trip (ascii ''Tokyo 3 days''))) = 12
   \<and> media_type (plan_trip (ascii ''Tokyo 3 days'')) = ''application/x-ndjson''
   \<and> map_option (map kind_of) (received (ascii ''Tokyo 3 days'')) =
       Some [Some Status, Some Status, Some Control,
             Some Status, Some Data, Some Data, Some Data,
             Some Status, Some Data, Some Data, Some Data,
             Some Status]
   \<and> map_option (\<lambda>es. length (filter is_data es)) (received (ascii ''Tokyo 3 days'')) =
       Some (sum_list (map (\<lambda>d. length (locations d)) MOCK_TOKYO_TRIP))
   \<and> sum_list (map (\<lambda>d. length (locations d)) MOCK_TOKYO_TRIP) = 3 + 3
   \<and> map day MOCK_TOKYO_TRIP = [1, 2]
   \<and> map_option (map (\<lambda>e. dict_get e (ascii ''day''))) (received (ascii ''Tokyo 3 days'')) =
       Some [None, None, None,
             None, Some (JInt 1), Some (JInt 1), Some (JInt 1),
             None, Some (JInt 2), Some (JInt 2), Some (JInt 2),
             None]
   \<and> map_option (\<lambda>es. [es ! 3, es ! 7]) (received (ascii ''Tokyo 3 days'')) =
       Some (map day_status MOCK_TOKYO_TRIP)
   \<and> map_option (\<lambda>es. map (\<lambda>e. dict_get e (ascii ''content'')) [es ! 3, es ! 7])
         (received (ascii ''Tokyo 3 days'')) =
       Some [Some (JStr ([0x6B63, 0x5728, 0x898F, 0x5283, 0x7B2C, 0x20] @ ascii ''1''
                     @ [0x20, 0x5929, 0xFF1A] @ summary (MOCK_TOKYO_TRIP ! 0))),
             Some (JStr ([0x6B63, 0x5728, 0x898F, 0x5283, 0x7B2C, 0x20] @ ascii ''2''
                     @ [0x20, 0x5929, 0xFF1A] @ summary (MOCK_TOKYO_TRIP ! 1)))]
   \<and> map_option (\<lambda>es. map (\<lambda>e. dict_get e (ascii ''location'')) (take 3 (drop 4 es)))
         (received (ascii ''Tokyo 3 days'')) =
       Some (map (\<lambda>loc. Some (location_dict loc)) (locations (MOCK_TOKYO_TRIP ! 0)))
   \<and> map_option (\<lambda>es. map (\<lambda>e. dict_get e (ascii ''location'')) (take 3 (drop 8 es)))
         (received (ascii ''Tokyo 3 days'')) =
       Some (map (\<lambda>loc. Some (location_dict loc)) (locations (MOCK_TOKYO_TRIP ! 1)))
   \<and> map_option (map (\<lambda>e. dict_get e (ascii ''summary''))) (received (ascii ''Tokyo 3 days'')) =
       Some [None, None, None,
             None, Some (JStr (summary (MOCK_TOKYO_TRIP ! 0))),
               Some (JStr (summary (MOCK_TOKYO_TRIP ! 0))), Some (JStr (summary (MOCK_TOKYO_TRIP ! 0))),
             None, Some (JStr (summary (MOCK_TOKYO_TRIP ! 1))),
               Some (JStr (summary (MOCK_TOKYO_TRIP ! 1))), Some (JStr (summary (MOCK_TOKYO_TRIP ! 1))),
             None]"
proof -
  let ?p = "ascii ''Tokyo 3 days''"
  have b: "body (plan_trip ?p) = map line (scripted_events MOCK_TOKYO_TRIP)"
    by (simp add: plan_trip_def yields_generator)
  have "length (filter is_data (scripted_events MOCK_TOKYO_TRIP))
          = length (filter (\<lambda>k. k = Some Data) (map kind_of (scripted_events MOCK_TOKYO_TRIP)))"
    by (simp add: filter_map comp_def is_data_def [abs_def])
  also have "\<dots> = 6"
    by (simp add: kinds_scripted_tokyo)
  finally have n: "length (filter is_data (scripted_events MOCK_TOKYO_TRIP)) = 6" .
  have m: "media_type (plan_trip ?p) = ''application/x-ndjson''"
    by (simp add: plan_trip_def)
  have r: "received ?p = Some (scripted_events MOCK_TOKYO_TRIP)"
    by (rule received_events)
  have c: "sum_list (map (\<lambda>d. length (locations d)) MOCK_TOKYO_TRIP) = 3 + 3"
    by (simp add: count_locations_tokyo)
  have c1: "ndjson_lines (body (plan_trip ?p)) = body (plan_trip ?p)"
    and c2: "length (body (plan_trip ?p)) = 12"
    by (simp_all add: b ndjson_lines_of_lines length_scripted_tokyo)
  have c5: "map_option (\<lambda>es. length (filter is_data es)) (received ?p) =
       Some (sum_list (map (\<lambda>d. length (locations d)) MOCK_TOKYO_TRIP))"
    by (simp add: r n c)
  show ?thesis
    unfolding r option.map
    apply (intro conjI)
    subgoal using c1 by (simp only: r)
    subgoal by (rule c2)
    subgoal by (rule m)
    subgoal by (simp only: kinds_scripted_tokyo)
    subgoal using c5 by (simp only: r option.map)
    subgoal by (rule c)
    subgoal by (rule days_tokyo)
    subgoal by (simp only: days_scripted_tokyo)
    subgoal by (simp only: day_statuses_tokyo)
    subgoal by (simp only: day_contents_tokyo)
    subgoal by (simp only: day_locations_tokyo)
    subgoal by (simp only: day_locations_tokyo)
    subgoal by (simp only: day_summaries_tokyo)
    done
qed

text \<open>
  C2. For every two prompts, the empty one included, the runs of
  \<^verbatim>\<open>ai_stream_generator\<close> are the same, step for step: the same lines are yielded in
  the same order (and the same pauses are taken), so the response of \<^verbatim>\<open>plan_trip\<close>
  is the same. The prompt is never read and no prompt is refused: the generator is
  defined for every string.
\<close>

theorem prompt_independent:
  "ai_stream_generator p1 = ai_stream_generator p2
   \<and> yields (ai_stream_generator p1) = yields (ai_stream_generator p2)
   \<and> plan_trip p1 = plan_trip p2"
  by (simp add: ai_stream_generator_def plan_trip_def)

text \<open>
  C3. For every prompt, each line of the body reads as one JSON object on its own, and
  the stream read back rebuilds the baked itinerary: the \<^verbatim>\<open>data\<close> events give, in the
  order of emission, exactly the locations of \<^verbatim>\<open>MOCK_TOKYO_TRIP\<close> day after day (each
  with its day index and the day's summary), and collected by day index they are
  \<^verbatim>\<open>MOCK_TOKYO_TRIP\<close> itself. A coordinate written \<^verbatim>\<open>35.7100\<close> comes back as
  \<^verbatim>\<open>35.71\<close>, the same number.
\<close>

theorem round_trip:
  "list_all (\<lambda>l. \<exists>kvs. json_loads l = Some (JDict kvs)) (ndjson_lines (body (plan_trip prompt)))
   \<and> (\<exists>es. received prompt = Some es
         \<and> length es = length (ndjson_lines (body (plan_trip prompt)))
         \<and> those (map data_point (filter is_data es)) =
             Some (concat (map (\<lambda>dp. map (\<lambda>loc. (day dp, summary dp, loc)) (locations dp))
                    MOCK_TOKYO_TRIP))
         \<and> reconstruct es = Some MOCK_TOKYO_TRIP)"
proof -
  have b: "ndjson_lines (body (plan_trip prompt)) = map line (scripted_events MOCK_TOKYO_TRIP)"
    by (simp add: plan_trip_def yields_generator ndjson_lines_of_lines)
  have "list_all (\<lambda>l. \<exists>kvs. json_loads l = Some (JDict kvs))
          (map line (scripted_events MOCK_TOKYO_TRIP))"
    unfolding list_all_iff
  proof
    fix l assume "l \<in> set (map line (scripted_events MOCK_TOKYO_TRIP))"
    then obtain e where e: "e \<in> set (scripted_events MOCK_TOKYO_TRIP)" and l: "l = line e"
      by auto
    from e obtain kvs where "e = JDict kvs"
      using scripted_events_dicts by blast
    with e l show "\<exists>kvs. json_loads l = Some (JDict kvs)"
      using read_scripted_event by simp
  qed
  then show ?thesis
    by (simp add: b received_events reconstruct_scripted_tokyo data_events_tokyo)
qed

text \<open>
  C4. For every prompt the first two events are status events (with the members
  \<^verbatim>\<open>type\<close> and \<^verbatim>\<open>content\<close>) and the third is the control event with the action
  \<^verbatim>\<open>fly_to\<close>, whose \<^verbatim>\<open>data\<close> has exactly the members \<^verbatim>\<open>lat\<close>, \<^verbatim>\<open>lng\<close>
  and \<^verbatim>\<open>zoom\<close>: the fixed coordinates 35.6895 and 139.6917 of the destination and the
  fixed zoom level 10.
\<close>

theorem preamble:
  "\<exists>e1 e2 rest.
     received prompt =
       Some (e1 # e2
         # JDict [(ascii ''type'', JStr (ascii ''control'')),
                  (ascii ''action'', JStr (ascii ''fly_to'')),
                  (ascii ''data'', JDict [(ascii ''lat'', JFloat 35.6895),
                                          (ascii ''lng'', JFloat 139.6917),
                                          (ascii ''zoom'', JInt 10)])]
         # rest)
     \<and> kind_of e1 = Some Status \<and> dict_keys e1 = [ascii ''type'', ascii ''content'']
     \<and> kind_of e2 = Some Status \<and> dict_keys e2 = [ascii ''type'', ascii ''content'']"
proof -
  have "received prompt =
      Some (analysing # searching # fly_to # concat (map day_events MOCK_TOKYO_TRIP) @ [completed])"
    by (simp add: received_events scripted_events_def)
  moreover have "kind_of analysing = Some Status" "kind_of searching = Some Status"
    by (simp_all add: analysing_def searching_def kind_of_status_event)
  moreover have "dict_keys analysing = [ascii ''type'', ascii ''content'']"
    "dict_keys searching = [ascii ''type'', ascii ''content'']"
    by (simp_all add: analysing_def searching_def status_event_def)
  ultimately show ?thesis
    unfolding fly_to_def by blast
qed

text \<open>
  C5. In the stream of every prompt, a data event comes after the status event of its
  day, with nothing between the two but data events of that day, and before the status
  event of any later day. The day indices of the data events never decrease; they are the
  day indices of the itinerary, 1 and 2, which start at 1 and increase strictly. The
  locations of the data events of one day are the locations of that day of the itinerary,
  in the itinerary's order.
\<close>

theorem day_order:
  "\<exists>es. received prompt = Some es
     \<and> (\<forall>i<length es. is_data (es ! i) \<longrightarrow>
          (\<exists>j<i. \<exists>dp\<in>set MOCK_TOKYO_TRIP.
              es ! j = day_status dp
            \<and> dict_get (es ! i) (ascii ''day'') = Some (JInt (day dp))
            \<and> (\<forall>k<i. j < k \<longrightarrow> is_data (es ! k)
                  \<and> dict_get (es ! k) (ascii ''day'') = Some (JInt (day dp)))))
     \<and> (\<forall>i<length es. \<forall>j<length es.
           \<forall>dp\<in>set MOCK_TOKYO_TRIP. \<forall>dp'\<in>set MOCK_TOKYO_TRIP.
             is_data (es ! i)
             \<and> dict_get (es ! i) (ascii ''day'') = Some (JInt (day dp))
             \<and> es ! j = day_status dp' \<and> day dp < day dp'
             \<longrightarrow> i < j)
     \<and> (\<exists>ds. map (\<lambda>e. dict_get e (ascii ''day'')) (filter is_data es) = map (\<lambda>d. Some (JInt d)) ds
           \<and> sorted ds \<and> remdups_adj ds = map day MOCK_TOKYO_TRIP)
     \<and> map day MOCK_TOKYO_TRIP = [1, 2]
     \<and> sorted_wrt (<) (map day MOCK_TOKYO_TRIP)
     \<and> (\<forall>dp\<in>set MOCK_TOKYO_TRIP.
           map (\<lambda>e. dict_get e (ascii ''location''))
             (filter (\<lambda>e. is_data e \<and> dict_get e (ascii ''day'') = Some (JInt (day dp))) es)
           = map (\<lambda>loc. Some (location_dict loc)) (locations dp))"
proof -
  have "sorted [1, 1, 1, 2, 2, 2 :: int]"
    and "remdups_adj [1, 1, 1, 2, 2, 2 :: int] = map day MOCK_TOKYO_TRIP"
    by (simp_all add: days_tokyo)
  with data_days_tokyo
  have "\<exists>ds. map (\<lambda>e. dict_get e (ascii ''day'')) (filter is_data (scripted_events MOCK_TOKYO_TRIP))
            = map (\<lambda>d. Some (JInt d)) ds
          \<and> sorted ds \<and> remdups_adj ds = map day MOCK_TOKYO_TRIP"
    by blast
  then have ds: "\<exists>ds. map (\<lambda>e. dict_get e (ascii ''day'')) (filter is_data (scripted_events MOCK_TOKYO_TRIP))
            = map (\<lambda>d. Some (JInt d)) ds
          \<and> sorted ds \<and> remdups_adj ds = map day MOCK_TOKYO_TRIP" .
  have sw: "sorted_wrt (<) (map day MOCK_TOKYO_TRIP)"
    by (simp add: days_tokyo)
  show ?thesis
    by (intro exI [of _ "scripted_events MOCK_TOKYO_TRIP"] conjI)
       (rule received_events ordering_tokyo [THEN conjunct1] ordering_tokyo [THEN conjunct2]
          ds sw days_tokyo within_day_tokyo)+
qed

theorem day_order_witness:
  "\<exists>es. received [] = Some es \<and> 5 < length es \<and> is_data (es ! 5)
     \<and> (\<exists>j<5. \<exists>dp. dp \<in> set MOCK_TOKYO_TRIP \<and> es ! j = day_status dp
           \<and> dict_get (es ! 5) (ascii ''day'') = Some (JInt (day dp)))"
proof -
  from day_order [of "[]"] obtain es where es: "received [] = Some es"
    and a: "\<forall>i<length es. is_data (es ! i) \<longrightarrow>
          (\<exists>j<i. \<exists>dp\<in>set MOCK_TOKYO_TRIP.
              es ! j = day_status dp
            \<and> dict_get (es ! i) (ascii ''day'') = Some (JInt (day dp))
            \<and> (\<forall>k<i. j < k \<longrightarrow> is_data (es ! k)
                  \<and> dict_get (es ! k) (ascii ''day'') = Some (JInt (day dp))))"
    by blast
  from es have "es = scripted_events MOCK_TOKYO_TRIP"
    by (simp add: received_events)
  with data_event_5_tokyo have d: "5 < length es" "is_data (es ! 5)"
    by simp_all
  with a have "\<exists>j<5. \<exists>dp\<in>set MOCK_TOKYO_TRIP.
              es ! j = day_status dp
            \<and> dict_get (es ! 5) (ascii ''day'') = Some (JInt (day dp))
            \<and> (\<forall>k<5. j < k \<longrightarrow> is_data (es ! k)
                  \<and> dict_get (es ! k) (ascii ''day'') = Some (JInt (day dp)))"
    by blast
  with es d show ?thesis
    by blast
qed

text \<open>
  C6. For every prompt, a data event has exactly the members \<^verbatim>\<open>type\<close>, \<^verbatim>\<open>day\<close>,
  \<^verbatim>\<open>location\<close> and \<^verbatim>\<open>summary\<close>. Its \<^verbatim>\<open>location\<close> is one object with exactly the
  members \<^verbatim>\<open>name\<close>, \<^verbatim>\<open>lat\<close>, \<^verbatim>\<open>lng\<close> and \<^verbatim>\<open>description\<close>, a location of
  the day whose index the event carries, and its \<^verbatim>\<open>summary\<close> is that day's summary.
  The n-th data event carries the n-th location of the itinerary and no other: one new
  location per event, never a batch.
\<close>

theorem data_event_shape:
  "\<exists>es. received prompt = Some es
     \<and> (\<forall>e\<in>set es. is_data e \<longrightarrow>
          dict_keys e = [ascii ''type'', ascii ''day'', ascii ''location'', ascii ''summary'']
          \<and> (\<exists>dp\<in>set MOCK_TOKYO_TRIP. \<exists>loc\<in>set (locations dp).
                dict_get e (ascii ''day'') = Some (JInt (day dp))
              \<and> dict_get e (ascii ''summary'') = Some (JStr (summary dp))
              \<and> dict_get e (ascii ''location'') =
                  Some (JDict [(ascii ''name'', JStr (name loc)),
                               (ascii ''lat'', JFloat (lat loc)),
                               (ascii ''lng'', JFloat (lng loc)),
                               (ascii ''description'', JStr (description loc))])))
     \<and> map (\<lambda>e. dict_get e (ascii ''location'')) (filter is_data es)
         = map (\<lambda>loc. Some (location_dict loc)) (concat (map locations MOCK_TOKYO_TRIP))"
proof -
  let ?es = "scripted_events MOCK_TOKYO_TRIP"
  have g: "dict_get (chunk dp loc) (ascii ''location'') = Some (location_dict loc)"
    "dict_get (chunk dp loc) (ascii ''summary'') = Some (JStr (summary dp))"
    "dict_keys (chunk dp loc) = [ascii ''type'', ascii ''day'', ascii ''location'', ascii ''summary'']"
    for dp loc
    by (simp_all add: chunk_def ascii_def)
  have "dict_keys e = [ascii ''type'', ascii ''day'', ascii ''location'', ascii ''summary'']
          \<and> (\<exists>dp\<in>set MOCK_TOKYO_TRIP. \<exists>loc\<in>set (locations dp).
                dict_get e (ascii ''day'') = Some (JInt (day dp))
              \<and> dict_get e (ascii ''summary'') = Some (JStr (summary dp))
              \<and> dict_get e (ascii ''location'') =
                  Some (JDict [(ascii ''name'', JStr (name loc)),
                               (ascii ''lat'', JFloat (lat loc)),
                               (ascii ''lng'', JFloat (lng loc)),
                               (ascii ''description'', JStr (description loc))]))"
    if "e \<in> set ?es" "is_data e" for e
  proof -
    from that have "e \<in> set (filter is_data ?es)"
      by simp
    then obtain dp loc where "dp \<in> set MOCK_TOKYO_TRIP" "loc \<in> set (locations dp)" "e = chunk dp loc"
      by (auto simp: filter_data_scripted)
    then show ?thesis
      using g [of dp loc] chunk_day [of dp loc] by (auto simp: location_dict_def)
  qed
  moreover have "map (\<lambda>e. dict_get e (ascii ''location'')) (filter is_data ?es)
         = map (\<lambda>loc. Some (location_dict loc)) (concat (map locations MOCK_TOKYO_TRIP))"
    by (simp only: filter_data_scripted chunk_locations)
  ultimately show ?thesis
    using received_events [of prompt] by blast
qed

theorem data_event_shape_witness:
  "\<exists>es. received [] = Some es \<and> 5 < length es \<and> is_data (es ! 5)
     \<and> dict_keys (es ! 5) = [ascii ''type'', ascii ''day'', ascii ''location'', ascii ''summary'']"
proof -
  from data_event_shape [of "[]"] obtain es where es: "received [] = Some es"
    and a: "\<forall>e\<in>set es. is_data e \<longrightarrow>
          dict_keys e = [ascii ''type'', ascii ''day'', ascii ''location'', ascii ''summary'']
          \<and> (\<exists>dp\<in>set MOCK_TOKYO_TRIP. \<exists>loc\<in>set (locations dp).
                dict_get e (ascii ''day'') = Some (JInt (day dp))
              \<and> dict_get e (ascii ''summary'') = Some (JStr (summary dp))
              \<and> dict_get e (ascii ''location'') =
                  Some (JDict [(ascii ''name'', JStr (name loc)),
                               (ascii ''lat'', JFloat (lat loc)),
                               (ascii ''lng'', JFloat (lng loc)),
                               (ascii ''description'', JStr (description loc))]))"
    by blast
  from es have "es = scripted_events MOCK_TOKYO_TRIP"
    by (simp add: received_events)
  with data_event_5_tokyo have d: "5 < length es" "is_data (es ! 5)"
    by simp_all
  then have "es ! 5 \<in> set es"
    by simp
  with a d es show ?thesis
    by blast
qed

text \<open>
  C7. For every prompt the run is finite and ends with the yield of the status event
  that announces completion: nothing follows it. In the stream that event is the last
  one; before it come the three events of the preamble and the events of all the days,
  so every data event, one per location of the itinerary, has been emitted by then.
\<close>

theorem completion_last:
  "ai_stream_generator prompt \<noteq> []
   \<and> last (ai_stream_generator prompt) =
       Yield (json_dumps (JDict [(ascii ''type'', JStr (ascii ''status'')),
                (ascii ''content'', JStr [0x884C, 0x7A0B, 0x898F, 0x5283, 0x5B8C, 0x6210, 0xFF01])])
              @ [CHR 0x0A])
   \<and> (\<exists>es. received prompt = Some es \<and> es \<noteq> []
         \<and> last es = JDict [(ascii ''type'', JStr (ascii ''status'')),
                (ascii ''content'', JStr [0x884C, 0x7A0B, 0x898F, 0x5283, 0x5B8C, 0x6210, 0xFF01])]
         \<and> kind_of (last es) = Some Status
         \<and> butlast es = take 3 es @ concat (map day_events MOCK_TOKYO_TRIP)
         \<and> filter is_data es = filter is_data (butlast es)
         \<and> length (filter is_data (butlast es))
             = sum_list (map (\<lambda>d. length (locations d)) MOCK_TOKYO_TRIP))"
proof -
  let ?es = "scripted_events MOCK_TOKYO_TRIP"
  have es: "?es = ([analysing, searching, fly_to] @ concat (map day_events MOCK_TOKYO_TRIP)) @ [completed]"
    by (simp add: scripted_events_def)
  have l: "last ?es = completed" and b: "butlast ?es = take 3 ?es @ concat (map day_events MOCK_TOKYO_TRIP)"
    by (simp_all add: scripted_events_def butlast_append)
  have k: "kind_of completed = Some Status"
    by (simp add: completed_def kind_of_status_event)
  then have f: "filter is_data ?es = filter is_data (butlast ?es)"
    unfolding es by (simp add: is_data_def butlast_append)
  have "length (filter is_data ?es)
          = length (filter (\<lambda>k. k = Some Data) (map kind_of ?es))"
    by (simp add: filter_map comp_def is_data_def [abs_def])
  also have "\<dots> = 6"
    by (simp add: kinds_scripted_tokyo)
  finally have n: "length (filter is_data (butlast ?es)) = 6"
    using f by simp
  have c: "completed = JDict [(ascii ''type'', JStr (ascii ''status'')),
                (ascii ''content'', JStr [0x884C, 0x7A0B, 0x898F, 0x5283, 0x5B8C, 0x6210, 0xFF01])]"
    by (simp add: completed_def status_event_def)
  have "ai_stream_generator prompt \<noteq> []"
    "last (ai_stream_generator prompt) = Yield (json_dumps completed @ [CHR 0x0A])"
    by (simp_all add: generator_steps line_def)
  moreover have "received prompt = Some ?es" "?es \<noteq> []"
    by (simp_all add: received_events scripted_events_def)
  moreover have "sum_list (map (\<lambda>d. length (locations d)) MOCK_TOKYO_TRIP) = 6"
    by (simp add: MOCK_TOKYO_TRIP_def)
  ultimately show ?thesis
    using l b k f n unfolding c by auto
qed

text \<open>
  C8. The pauses of one run, in their places among the events: 1 after each of the first
  two status events, 1.5 after the control event, and 0.8 right before each data event,
  the first of a day included; there is no other pause. Their sum is
  2 + 1.5 + 0.8 * 6 = 8.3 (the durations are the decimal values of the literals).
\<close>

theorem scripted_pauses:
  "map trace_of (ai_stream_generator prompt) =
     [Emitted (Some Status), Paused 1,
      Emitted (Some Status), Paused 1,
      Emitted (Some Control), Paused 1.5,
      Emitted (Some Status),
        Paused 0.8, Emitted (Some Data),
        Paused 0.8, Emitted (Some Data),
        Paused 0.8, Emitted (Some Data),
      Emitted (Some Status),
        Paused 0.8, Emitted (Some Data),
        Paused 0.8, Emitted (Some Data),
        Paused 0.8, Emitted (Some Data),
      Emitted (Some Status)]
   \<and> sleeps (ai_stream_generator prompt) = [1, 1, 1.5, 0.8, 0.8, 0.8, 0.8, 0.8, 0.8]
   \<and> sum_list (sleeps (ai_stream_generator prompt))
       = 2 + 1.5 + 0.8 * of_nat (sum_list (map (\<lambda>d. length (locations d)) MOCK_TOKYO_TRIP))
   \<and> sum_list (sleeps (ai_stream_generator prompt)) = 8.3"
proof -
  have k: "kind_of analysing = Some Status" "kind_of searching = Some Status"
    "kind_of completed = Some Status"
    by (simp_all add: analysing_def searching_def completed_def kind_of_status_event)
  have m: "analysing \<in> set (scripted_events MOCK_TOKYO_TRIP)"
    "searching \<in> set (scripted_events MOCK_TOKYO_TRIP)"
    "fly_to \<in> set (scripted_events MOCK_TOKYO_TRIP)"
    "completed \<in> set (scripted_events MOCK_TOKYO_TRIP)"
    by (simp_all add: scripted_events_def)
  have a: "trace_of (Yield (line analysing)) = Emitted (Some Status)"
    and b: "trace_of (Yield (line searching)) = Emitted (Some Status)"
    and c: "trace_of (Yield (line fly_to)) = Emitted (Some Control)"
    and d: "trace_of (Yield (line completed)) = Emitted (Some Status)"
    by (simp_all only: trace_line [OF m(1)] trace_line [OF m(2)] trace_line [OF m(3)]
        trace_line [OF m(4)] k kind_of_fly_to)
  have "map trace_of (days_loop MOCK_TOKYO_TRIP)
        = concat (map (\<lambda>dp. Emitted (Some Status)
              # concat (map (\<lambda>loc. [Paused 0.8, Emitted (Some Data)]) (locations dp)))
            MOCK_TOKYO_TRIP)"
    by (rule trace_days_loop, rule read_scripted_event) (simp add: scripted_events_def)
  also have "\<dots> =
     [Emitted (Some Status),
        Paused 0.8, Emitted (Some Data), Paused 0.8, Emitted (Some Data),
        Paused 0.8, Emitted (Some Data),
      Emitted (Some Status),
        Paused 0.8, Emitted (Some Data), Paused 0.8, Emitted (Some Data),
        Paused 0.8, Emitted (Some Data)]"
    by (simp add: MOCK_TOKYO_TRIP_def)
  finally have e: "map trace_of (days_loop MOCK_TOKYO_TRIP) =
     [Emitted (Some Status),
        Paused 0.8, Emitted (Some Data), Paused 0.8, Emitted (Some Data),
        Paused 0.8, Emitted (Some Data),
      Emitted (Some Status),
        Paused 0.8, Emitted (Some Data), Paused 0.8, Emitted (Some Data),
        Paused 0.8, Emitted (Some Data)]" .
  have t: "map trace_of (ai_stream_generator prompt) =
     [Emitted (Some Status), Paused 1,
      Emitted (Some Status), Paused 1,
      Emitted (Some Control), Paused 1.5,
      Emitted (Some Status),
        Paused 0.8, Emitted (Some Data),
        Paused 0.8, Emitted (Some Data),
        Paused 0.8, Emitted (Some Data),
      Emitted (Some Status),
        Paused 0.8, Emitted (Some Data),
        Paused 0.8, Emitted (Some Data),
        Paused 0.8, Emitted (Some Data),
      Emitted (Some Status)]"
    by (simp add: generator_steps a b c d e del: trace_of.simps(1))
  have n: "sum_list (map (\<lambda>d. length (locations d)) MOCK_TOKYO_TRIP) = 6"
    by (simp add: MOCK_TOKYO_TRIP_def)
  have s: "sleeps (ai_stream_generator prompt) = [1, 1, 1.5, 0.8, 0.8, 0.8, 0.8, 0.8, 0.8]"
    by (simp add: generator_steps sleeps_append sleeps_days_loop n eval_nat_numeral)
  show ?thesis
    by (simp add: t s n)
qed

text \<open>
  C9. The list \<^verbatim>\<open>current_locations\<close> is dead: for every prompt the generator does
  exactly what the generator without the list and its \<^verbatim>\<open>append\<close> does, yield for yield
  and pause for pause.
\<close>

theorem current_locations_dead:
  "ai_stream_generator prompt = ai_stream_generator_simplified prompt"
  by (simp add: ai_stream_generator_def ai_stream_generator_simplified_def days_loop_simplified)

text \<open>
  C10. Every string the generator yields ends with a newline and has no other newline:
  what precedes the final newline is printable ASCII only. Read as JSON, the string is
  one object, so each yield is exactly one line carrying exactly one event.
\<close>

theorem one_line_per_yield:
  "\<forall>s \<in> set (yields (ai_stream_generator prompt)).
      s \<noteq> [] \<and> last s = CHR 0x0A \<and> CHR 0x0A \<notin> set (butlast s)
      \<and> list_all printable (butlast s)
      \<and> (\<exists>kvs. json_loads s = Some (JDict kvs))"
proof
  fix s assume "s \<in> set (yields (ai_stream_generator prompt))"
  then obtain e where e: "e \<in> set (scripted_events MOCK_TOKYO_TRIP)" and s: "s = line e"
    by (auto simp: yields_generator)
  from e obtain kvs where "e = JDict kvs"
    using scripted_events_dicts by blast
  with e have "json_loads s = Some (JDict kvs)"
    using read_scripted_event s by simp
  moreover have "s \<noteq> []" "last s = CHR 0x0A"
    by (simp_all add: s line_def)
  moreover have "CHR 0x0A \<notin> set (butlast s)" "list_all printable (butlast s)"
    by (simp_all add: s butlast_line json_dumps_no_newline json_dumps_printable)
  ultimately show "s \<noteq> [] \<and> last s = CHR 0x0A \<and> CHR 0x0A \<notin> set (butlast s)
      \<and> list_all printable (butlast s) \<and> (\<exists>kvs. json_loads s = Some (JDict kvs))"
    by blast
qed

theorem one_line_per_yield_witness:
  "yields (ai_stream_generator []) \<noteq> []
   \<and> last (hd (yields (ai_stream_generator []))) = CHR 0x0A
   \<and> CHR 0x0A \<notin> set (butlast (hd (yields (ai_stream_generator []))))
   \<and> (\<exists>kvs. json_loads (hd (yields (ai_stream_generator []))) = Some (JDict kvs))"
proof -
  have ne: "yields (ai_stream_generator []) \<noteq> []"
    by (simp add: yields_generator scripted_events_def)
  then have "hd (yields (ai_stream_generator [])) \<in> set (yields (ai_stream_generator []))"
    by simp
  with one_line_per_yield [of "[]"] ne show ?thesis
    by blast
qed

end
